theory Spec2Isabelle
  imports Main
begin

section \<open>The header \<open>src/paper/paper.h\<close>\<close>

text \<open>
  The repository consists of one C++ header. It holds an include guard, one system
  include, a forward declaration of \<open>RDKit::ROMol\<close> and the declaration of the function
  \<open>paper\<close>; there is no function body anywhere. The development therefore models the
  header itself: its bytes, its structure (preprocessor directives around declarations),
  the conditional inclusion that the guard performs, and the declarations a translation
  unit obtains from it.
\<close>

subsection \<open>The bytes of the file\<close>

text \<open>The file as it is stored: 180 bytes, lines separated by a line feed, no line feed
  after the last line.\<close>

definition paper_h_text :: string where
  \<open>paper_h_text =
''#ifndef PAPER_H\<newline>#define PAPER_H\<newline>\<newline>#include <list>\<newline>\<newline>namespace RDKit {\<newline>    class ROMol;\<newline>}\<newline>\<newline>extern "C" float** paper(int gpuID, std::list<RDKit::ROMol*>& molecules);\<newline>\<newline>#endif // PAPER_H''\<close>

text \<open>Splitting a text at its line feeds. A text with \<open>k\<close> line feeds has \<open>k + 1\<close> lines,
  the last of which is what follows the final line feed.\<close>

fun split_lines :: "string \<Rightarrow> string list" where
  "split_lines [] = [[]]"
| "split_lines (c # cs) =
     (if c = CHR 0x0A then [] # split_lines cs
      else (case split_lines cs of
              l # ls \<Rightarrow> (c # l) # ls
            | [] \<Rightarrow> [[c]]))"

fun join_lines :: "string list \<Rightarrow> string" where
  "join_lines [] = []"
| "join_lines [l] = l"
| "join_lines (l # ls) = l @ CHR 0x0A # join_lines ls"

subsection \<open>Types and declarations\<close>

text \<open>The C++ types a declaration can mention. \<open>TNamed q args\<close> is the class or template
  named by the qualified name \<open>q\<close>, with its template arguments (none for a plain class).\<close>

datatype ctype =
    TInt
  | TFloat
  | TPtr ctype
  | TLRef ctype
  | TConst ctype
  | TNamed "string list" "ctype list"

record param =
  ptype :: ctype
  pname :: string

datatype linkage = LinkC | LinkCxx

record fundecl =
  flinkage :: linkage
  fret :: ctype
  fname :: string
  fparams :: "param list"

text \<open>What can stand at namespace scope. A function carries its body when it is defined
  and \<open>None\<close> when it is only declared; a class is either forward-declared or defined with
  its members.\<close>

datatype item =
    ClassFwd string
  | ClassDef string "item list"
  | Namespace string "item list"
  | Function fundecl "string option"

text \<open>The lines of a header: conditional groups, macro definitions, system includes, blank
  lines and declarations. \<open>Ifndef m body c\<close> is \<open>#ifndef m\<close>, the guarded group, and the
  closing \<open>#endif\<close> with its trailing comment. The header itself has no \<open>#undef\<close>; the
  directive is here because a file that includes the header can have one.\<close>

datatype directive =
    Ifndef string "directive list" "string option"
  | Define string
  | Undef string
  | IncludeSys string
  | Blank
  | Code item

text \<open>A line of a source file that uses the header: \<open>#include "paper.h"\<close>, or a line
  of its own.\<close>

datatype srcline = IncludePaper | Line directive

subsection \<open>The header, structured\<close>

text \<open>Line 10: \<^verbatim>\<open>extern "C" float** paper(int gpuID, std::list<RDKit::ROMol*>& molecules);\<close>\<close>

definition paper_decl :: fundecl where
  "paper_decl =
     \<lparr> flinkage = LinkC,
       fret = TPtr (TPtr TFloat),
       fname = ''paper'',
       fparams =
         [ \<lparr> ptype = TInt, pname = ''gpuID'' \<rparr>,
           \<lparr> ptype = TLRef (TNamed [''std'', ''list''] [TPtr (TNamed [''RDKit'', ''ROMol''] [])]),
             pname = ''molecules'' \<rparr> ] \<rparr>"

text \<open>Lines 1 to 12.\<close>

definition paper_h :: "directive list" where
  "paper_h =
     [ Ifndef ''PAPER_H''
         [ Define ''PAPER_H'',
           Blank,
           IncludeSys ''list'',
           Blank,
           Code (Namespace ''RDKit'' [ClassFwd ''ROMol'']),
           Blank,
           Code (Function paper_decl None),
           Blank ]
         (Some ''PAPER_H'') ]"

subsection \<open>Writing the structure back as text\<close>

fun join_with :: "string \<Rightarrow> string list \<Rightarrow> string" where
  "join_with sep [] = []"
| "join_with sep [s] = s"
| "join_with sep (s # ss) = s @ sep @ join_with sep ss"

fun render_type :: "ctype \<Rightarrow> string" where
  "render_type TInt = ''int''"
| "render_type TFloat = ''float''"
| "render_type (TPtr t) = render_type t @ ''*''"
| "render_type (TLRef t) = render_type t @ ''&''"
| "render_type (TConst t) = ''const '' @ render_type t"
| "render_type (TNamed q args) =
     join_with ''::'' q @
     (if args = [] then [] else ''<'' @ join_with '', '' (map render_type args) @ ''>'')"

definition render_param :: "param \<Rightarrow> string" where
  "render_param p = render_type (ptype p) @ '' '' @ pname p"

definition render_fundecl :: "fundecl \<Rightarrow> string" where
  "render_fundecl d =
     (case flinkage d of LinkC \<Rightarrow> ''extern '' @ [CHR 0x22] @ ''C'' @ [CHR 0x22] @ '' '' | LinkCxx \<Rightarrow> []) @
     render_type (fret d) @ '' '' @ fname d @
     ''('' @ join_with '', '' (map render_param (fparams d)) @ '')''"

fun render_item :: "string \<Rightarrow> item \<Rightarrow> string list" where
  "render_item ind (ClassFwd n) = [ind @ ''class '' @ n @ '';'']"
| "render_item ind (ClassDef n ms) =
     [ind @ ''class '' @ n @ '' {''] @
     concat (map (render_item (ind @ ''    '')) ms) @
     [ind @ ''};'']"
| "render_item ind (Namespace n its) =
     [ind @ ''namespace '' @ n @ '' {''] @
     concat (map (render_item (ind @ ''    '')) its) @
     [ind @ ''}'']"
| "render_item ind (Function d None) = [ind @ render_fundecl d @ '';'']"
| "render_item ind (Function d (Some b)) = [ind @ render_fundecl d @ '' '' @ b]"

fun render_directive :: "directive \<Rightarrow> string list" where
  "render_directive (Ifndef m body c) =
     [''#ifndef '' @ m] @
     concat (map render_directive body) @
     [''#endif'' @ (case c of None \<Rightarrow> [] | Some t \<Rightarrow> '' // '' @ t)]"
| "render_directive (Define m) = [''#define '' @ m]"
| "render_directive (Undef m) = [''#undef '' @ m]"
| "render_directive (IncludeSys h) = [''#include <'' @ h @ ''>'']"
| "render_directive Blank = [[]]"
| "render_directive (Code it) = render_item [] it"

definition render_header :: "directive list \<Rightarrow> string list" where
  "render_header ds = concat (map render_directive ds)"

subsection \<open>Conditional inclusion\<close>

text \<open>What the preprocessor hands on: requests for system headers and declarations, in
  order. The state is the set of macros defined so far. A group under \<open>#ifndef m\<close> is
  skipped whole when \<open>m\<close> is defined and processed otherwise; \<open>#define m\<close> adds \<open>m\<close>
  and \<open>#undef m\<close> removes it. The state records which names are defined, which is all
  that \<open>#ifndef\<close> looks at; replacement of macro names inside declarations is not
  modelled. The text of the system header \<open>list\<close> is not part of the repository, so
  \<open>#include <list>\<close> is recorded as a request and not expanded.\<close>

datatype tuitem = Included string | Declared item

fun preprocess :: "string set \<Rightarrow> directive list \<Rightarrow> string set \<times> tuitem list" where
  "preprocess D [] = (D, [])"
| "preprocess D (Ifndef m body c # rest) =
     (if m \<in> D then preprocess D rest
      else (case preprocess D body of
              (D1, out1) \<Rightarrow>
                (case preprocess D1 rest of
                   (D2, out2) \<Rightarrow> (D2, out1 @ out2))))"
| "preprocess D (Define m # rest) = preprocess (insert m D) rest"
| "preprocess D (Undef m # rest) = preprocess (D - {m}) rest"
| "preprocess D (IncludeSys h # rest) =
     (case preprocess D rest of (D1, out) \<Rightarrow> (D1, Included h # out))"
| "preprocess D (Blank # rest) = preprocess D rest"
| "preprocess D (Code it # rest) =
     (case preprocess D rest of (D1, out) \<Rightarrow> (D1, Declared it # out))"

text \<open>A translation unit that includes the header \<open>n\<close> times in a row, starting with the
  macros \<open>D\<close> defined.\<close>

fun include_times :: "nat \<Rightarrow> string set \<Rightarrow> string set \<times> tuitem list" where
  "include_times 0 D = (D, [])"
| "include_times (Suc n) D =
     (case preprocess D paper_h of
        (D1, out1) \<Rightarrow>
          (case include_times n D1 of
             (D2, out2) \<Rightarrow> (D2, out1 @ out2)))"

text \<open>A source file, line by line: each \<open>#include "paper.h"\<close> is replaced by what the
  header expands to under the macros defined at that point.\<close>

fun preprocess_file :: "string set \<Rightarrow> srcline list \<Rightarrow> string set \<times> tuitem list" where
  "preprocess_file D [] = (D, [])"
| "preprocess_file D (IncludePaper # rest) =
     (case preprocess D paper_h of
        (D1, out1) \<Rightarrow>
          (case preprocess_file D1 rest of
             (D2, out2) \<Rightarrow> (D2, out1 @ out2)))"
| "preprocess_file D (Line d # rest) =
     (case preprocess D [d] of
        (D1, out1) \<Rightarrow>
          (case preprocess_file D1 rest of
             (D2, out2) \<Rightarrow> (D2, out1 @ out2)))"

text \<open>Whether a line holds \<open>#undef m\<close>, at any depth of conditional groups.\<close>

fun undefines :: "string \<Rightarrow> directive \<Rightarrow> bool" where
  "undefines m (Undef x) = (x = m)"
| "undefines m (Ifndef x body c) = list_ex (undefines m) body"
| "undefines m (Define x) = False"
| "undefines m (IncludeSys h) = False"
| "undefines m Blank = False"
| "undefines m (Code it) = False"

fun line_undefines :: "string \<Rightarrow> srcline \<Rightarrow> bool" where
  "line_undefines m IncludePaper = False"
| "line_undefines m (Line d) = undefines m d"

text \<open>The translation unit of a source file that includes the header first.\<close>

definition translation_unit :: "tuitem list" where
  "translation_unit = snd (preprocess {} paper_h)"

subsection \<open>The entities a translation unit declares\<close>

text \<open>Declarations with their qualified names; a namespace contributes its members under
  its own name.\<close>

fun flatten :: "string list \<Rightarrow> item \<Rightarrow> (string list \<times> item) list" where
  "flatten sc (ClassFwd n) = [(sc @ [n], ClassFwd n)]"
| "flatten sc (ClassDef n ms) =
     (sc @ [n], ClassDef n ms) # concat (map (flatten (sc @ [n])) ms)"
| "flatten sc (Namespace n its) = concat (map (flatten (sc @ [n])) its)"
| "flatten sc (Function d b) = [(sc @ [fname d], Function d b)]"

fun entities :: "tuitem list \<Rightarrow> (string list \<times> item) list" where
  "entities [] = []"
| "entities (Included h # tu) = entities tu"
| "entities (Declared it # tu) = flatten [] it @ entities tu"

fun includes_of :: "tuitem list \<Rightarrow> string list" where
  "includes_of [] = []"
| "includes_of (Included h # tu) = h # includes_of tu"
| "includes_of (Declared it # tu) = includes_of tu"

fun declared_functions :: "(string list \<times> item) list \<Rightarrow> (string list \<times> fundecl) list" where
  "declared_functions [] = []"
| "declared_functions ((q, Function d b) # es) = (q, d) # declared_functions es"
| "declared_functions (e # es) = declared_functions es"

fun function_definitions :: "(string list \<times> item) list \<Rightarrow> (string list \<times> string) list" where
  "function_definitions [] = []"
| "function_definitions ((q, Function d (Some b)) # es) = (q, b) # function_definitions es"
| "function_definitions (e # es) = function_definitions es"

fun forward_declared_classes :: "(string list \<times> item) list \<Rightarrow> string list list" where
  "forward_declared_classes [] = []"
| "forward_declared_classes ((q, ClassFwd n) # es) = q # forward_declared_classes es"
| "forward_declared_classes (e # es) = forward_declared_classes es"

fun defined_classes :: "(string list \<times> item) list \<Rightarrow> string list list" where
  "defined_classes [] = []"
| "defined_classes ((q, ClassDef n ms) # es) = q # defined_classes es"
| "defined_classes (e # es) = defined_classes es"

text \<open>A class type is complete in a translation unit once its definition has been seen.\<close>

definition is_complete :: "(string list \<times> item) list \<Rightarrow> string list \<Rightarrow> bool" where
  "is_complete es q = (q \<in> set (defined_classes es))"

text \<open>The classes a type mentions by name.\<close>

fun classes_in :: "ctype \<Rightarrow> string list list" where
  "classes_in TInt = []"
| "classes_in TFloat = []"
| "classes_in (TPtr t) = classes_in t"
| "classes_in (TLRef t) = classes_in t"
| "classes_in (TConst t) = classes_in t"
| "classes_in (TNamed q args) = q # concat (map classes_in args)"

text \<open>A function with C language linkage is known to the linker by its plain identifier.
  The encoded name of a function with C++ linkage depends on the platform's ABI and is
  not modelled.\<close>

definition link_symbol :: "fundecl \<Rightarrow> string option" where
  "link_symbol d = (case flinkage d of LinkC \<Rightarrow> Some (fname d) | LinkCxx \<Rightarrow> None)"

text \<open>Whether the callee can write to the caller's object through a parameter of this
  type: through a reference or a pointer whose target is not \<open>const\<close>.\<close>

fun writable_through :: "ctype \<Rightarrow> bool" where
  "writable_through (TLRef (TConst t)) = False"
| "writable_through (TLRef t) = True"
| "writable_through (TPtr (TConst t)) = False"
| "writable_through (TPtr t) = True"
| "writable_through t = False"

text \<open>The parameters through which the callee can write to the caller.\<close>

definition out_params :: "fundecl \<Rightarrow> string list" where
  "out_params d = map pname (filter (\<lambda>p. writable_through (ptype p)) (fparams d))"

subsection \<open>Looking into the text\<close>

text \<open>\<open>starts_with p s\<close>: the text \<open>s\<close> begins with \<open>p\<close>. \<open>contains p s\<close>: \<open>p\<close> occurs
  somewhere in \<open>s\<close>. \<open>comment_of l\<close>: what follows the first \<open>//\<close> on the line \<open>l\<close>, if
  there is one (no string literal of the header holds a slash).\<close>

fun starts_with :: "string \<Rightarrow> string \<Rightarrow> bool" where
  "starts_with [] s = True"
| "starts_with (a # p) [] = False"
| "starts_with (a # p) (b # s) = (a = b \<and> starts_with p s)"

fun contains :: "string \<Rightarrow> string \<Rightarrow> bool" where
  "contains p [] = (p = [])"
| "contains p (c # s) = (starts_with p (c # s) \<or> contains p s)"

fun comment_of :: "string \<Rightarrow> string option" where
  "comment_of [] = None"
| "comment_of (c # s) =
     (if starts_with ''//'' (c # s) then Some (drop 2 (c # s)) else comment_of s)"

section \<open>Properties\<close>

subsection \<open>The structured header is the file\<close>

lemma render_paper_decl:
  "render_fundecl paper_decl =
     ''extern '' @ [CHR 0x22] @ ''C'' @ [CHR 0x22] @
     '' float** paper(int gpuID, std::list<RDKit::ROMol*>& molecules)''"
  by (simp add: render_fundecl_def paper_decl_def render_param_def)

lemma paper_h_renders: "join_lines (render_header paper_h) = paper_h_text"
  by (simp add: render_header_def paper_h_def render_paper_decl paper_h_text_def)

lemma paper_h_lines: "render_header paper_h = split_lines paper_h_text"
  by (simp add: render_header_def paper_h_def render_paper_decl paper_h_text_def)

subsection \<open>First inclusion\<close>

lemma preprocess_fresh:
  "''PAPER_H'' \<notin> D \<Longrightarrow>
   preprocess D paper_h =
     (insert ''PAPER_H'' D,
      [Included ''list'',
       Declared (Namespace ''RDKit'' [ClassFwd ''ROMol'']),
       Declared (Function paper_decl None)])"
  by (simp add: paper_h_def)

lemma preprocess_guarded: "''PAPER_H'' \<in> D \<Longrightarrow> preprocess D paper_h = (D, [])"
  by (simp add: paper_h_def)

lemma translation_unit_eq:
  "translation_unit =
     [Included ''list'',
      Declared (Namespace ''RDKit'' [ClassFwd ''ROMol'']),
      Declared (Function paper_decl None)]"
  by (simp add: translation_unit_def preprocess_fresh)

lemma entities_translation_unit:
  "entities translation_unit =
     [([''RDKit'', ''ROMol''], ClassFwd ''ROMol''),
      ([''paper''], Function paper_decl None)]"
  by (simp add: translation_unit_eq paper_decl_def)

subsection \<open>Repeated inclusion\<close>

lemma guard_defined_after: "''PAPER_H'' \<in> fst (preprocess D paper_h)"
  by (cases "''PAPER_H'' \<in> D") (simp_all add: preprocess_fresh preprocess_guarded)

lemma include_times_guarded: "''PAPER_H'' \<in> D \<Longrightarrow> include_times n D = (D, [])"
  by (induction n) (simp_all add: preprocess_guarded)

lemma include_times_Suc: "include_times (Suc n) D = preprocess D paper_h"
proof -
  obtain D1 out1 where p: "preprocess D paper_h = (D1, out1)"
    by (cases "preprocess D paper_h")
  have "''PAPER_H'' \<in> D1"
    using guard_defined_after [of D] p by simp
  then have "include_times n D1 = (D1, [])"
    by (rule include_times_guarded)
  with p show ?thesis by simp
qed

text \<open>A macro that is defined stays defined across lines that hold no \<open>#undef\<close> of it.\<close>

lemma macro_kept:
  "m \<in> D \<Longrightarrow> \<not> list_ex (undefines m) ds \<Longrightarrow> m \<in> fst (preprocess D ds)"
proof (induction D ds rule: preprocess.induct)
  case (2 D x body c rest)
  from 2(5) have nb: "\<not> list_ex (undefines m) body" and nr: "\<not> list_ex (undefines m) rest"
    by simp_all
  show ?case
  proof (cases "x \<in> D")
    case True
    with 2(1) [OF True 2(4) nr] show ?thesis by simp
  next
    case False
    obtain D1 out1 where b: "preprocess D body = (D1, out1)"
      by (cases "preprocess D body")
    obtain D2 out2 where r: "preprocess D1 rest = (D2, out2)"
      by (cases "preprocess D1 rest")
    from 2(2) [OF False 2(4) nb] b have "m \<in> D1" by simp
    from 2(3) [OF False b [symmetric] this nr] r have "m \<in> D2" by simp
    then show ?thesis using False b r by simp
  qed
qed (auto split: prod.splits)

lemma paper_h_no_undef: "\<not> list_ex (undefines m) paper_h"
  by (simp add: paper_h_def)

lemma include_times_file: "include_times n D = preprocess_file D (replicate n IncludePaper)"
  by (induction n arbitrary: D) (simp_all split: prod.splits)

text \<open>Once the guard macro is defined, and as long as no line undefines it, the
  inclusions of the header in a source file contribute nothing.\<close>

lemma file_guarded:
  "''PAPER_H'' \<in> D \<Longrightarrow> \<not> list_ex (line_undefines ''PAPER_H'') ls \<Longrightarrow>
   preprocess_file D ls = preprocess_file D (removeAll IncludePaper ls)"
proof (induction ls arbitrary: D)
  case Nil
  show ?case by simp
next
  case (Cons l ls)
  from Cons.prems(2) have nl: "\<not> list_ex (line_undefines ''PAPER_H'') ls"
    by simp
  show ?case
  proof (cases l)
    case IncludePaper
    with Cons.IH [OF Cons.prems(1) nl] Cons.prems(1) show ?thesis
      by (simp add: preprocess_guarded)
  next
    case (Line d)
    obtain D1 out1 where p: "preprocess D [d] = (D1, out1)"
      by (cases "preprocess D [d]")
    from Cons.prems(2) Line have "\<not> list_ex (undefines ''PAPER_H'') [d]"
      by simp
    with Cons.prems(1) have "''PAPER_H'' \<in> fst (preprocess D [d])"
      by (rule macro_kept)
    with p have "''PAPER_H'' \<in> D1" by simp
    from Cons.IH [OF this nl] Line p show ?thesis by simp
  qed
qed

section \<open>The claims\<close>

text \<open>
  C10: the header file is exactly 12 lines long. The stored text has eleven line feeds and
  no line feed at its end, so it splits into twelve lines, the twelfth being the
  \<open>#endif\<close> line.
\<close>

theorem header_has_twelve_lines:
  "length (split_lines paper_h_text) = 12 \<and>
   last (split_lines paper_h_text) = ''#endif // PAPER_H'' \<and>
   length (filter (\<lambda>c. c = CHR 0x0A) paper_h_text) = 11"
  by (simp add: paper_h_text_def)

text \<open>
  C9, as stated: a second or any later inclusion of the header in the same translation
  unit expands to nothing. This fails for the source file
  \<^verbatim>\<open>#include "paper.h"\<close>, \<^verbatim>\<open>#undef PAPER_H\<close>, \<^verbatim>\<open>#include "paper.h"\<close>:
  the guard macro is gone at the second inclusion, the header expands again, and the
  file gets the declarations twice.
\<close>

theorem include_after_undef_counterexample:
  "snd (preprocess (fst (preprocess_file {} [IncludePaper, Line (Undef ''PAPER_H'')])) paper_h) \<noteq> [] \<and>
   snd (preprocess_file {} [IncludePaper, Line (Undef ''PAPER_H''), IncludePaper]) \<noteq>
   snd (preprocess_file {} [IncludePaper])"
  by (simp add: paper_h_def)

text \<open>
  C9, amended: inclusion of the header is idempotent as long as \<open>PAPER_H\<close> is not
  undefined in between. Whatever names are defined beforehand, including the header \<open>n\<close>
  times in a row, for every \<open>n\<close> from 1 on, gives the same declarations (and the same
  macros) as including it once; an inclusion right after another expands to nothing; and
  in a source file that includes the header and then goes on with lines \<open>ls\<close>, none of
  them \<open>#undef PAPER_H\<close>, every later inclusion can be struck out without changing what
  the file expands to.
\<close>

theorem include_guard_idempotent:
  assumes "1 \<le> n" and "\<not> list_ex (line_undefines ''PAPER_H'') ls"
  shows "include_times n D = include_times 1 D \<and>
         preprocess (fst (preprocess D paper_h)) paper_h = (fst (preprocess D paper_h), []) \<and>
         preprocess_file D (IncludePaper # ls) =
           preprocess_file D (IncludePaper # removeAll IncludePaper ls)"
proof -
  from assms(1) obtain k where n: "n = Suc k"
    by (cases n) simp_all
  have "include_times n D = preprocess D paper_h"
    unfolding n by (rule include_times_Suc)
  moreover have "include_times 1 D = preprocess D paper_h"
    using include_times_Suc [of 0 D] by simp
  moreover have "preprocess (fst (preprocess D paper_h)) paper_h = (fst (preprocess D paper_h), [])"
    by (rule preprocess_guarded) (rule guard_defined_after)
  moreover have "preprocess_file D (IncludePaper # ls) =
      preprocess_file D (IncludePaper # removeAll IncludePaper ls)"
  proof -
    obtain D1 out1 where p: "preprocess D paper_h = (D1, out1)"
      by (cases "preprocess D paper_h")
    have "''PAPER_H'' \<in> D1"
      using guard_defined_after [of D] p by simp
    then have "preprocess_file D1 ls = preprocess_file D1 (removeAll IncludePaper ls)"
      using assms(2) by (rule file_guarded)
    with p show ?thesis by simp
  qed
  ultimately show ?thesis by simp
qed

theorem include_guard_idempotent_witness:
  "(1::nat) \<le> 3 \<and>
   \<not> list_ex (line_undefines ''PAPER_H'')
       [Line (Define ''X''), IncludePaper, Line (Undef ''X''), IncludePaper] \<and>
   include_times 3 {} = include_times 1 {} \<and>
   snd (include_times 3 {}) =
     [Included ''list'',
      Declared (Namespace ''RDKit'' [ClassFwd ''ROMol'']),
      Declared (Function paper_decl None)] \<and>
   preprocess_file {}
     [IncludePaper, Line (Define ''X''), IncludePaper, Line (Undef ''X''), IncludePaper] =
   preprocess_file {} [IncludePaper, Line (Define ''X''), Line (Undef ''X'')]"
proof -
  have h: "(1::nat) \<le> 3" by simp
  have u: "\<not> list_ex (line_undefines ''PAPER_H'')
             [Line (Define ''X''), IncludePaper, Line (Undef ''X''), IncludePaper]"
    by simp
  have one: "include_times 1 {} = preprocess {} paper_h"
    using include_times_Suc [of 0 "{}"] by simp
  show ?thesis
    using h u include_guard_idempotent [OF h u, of "{}"]
    by (simp add: one preprocess_fresh)
qed

text \<open>
  C1: the only function the header declares is \<open>paper\<close>. It takes exactly two parameters,
  an \<open>int\<close> and a reference to a \<open>std::list\<close> of pointers to \<open>RDKit::ROMol\<close>, and its
  return type is \<open>float**\<close>.
\<close>

theorem paper_signature:
  "map (\<lambda>(q, d). (q, length (fparams d), map ptype (fparams d), fret d))
       (declared_functions (entities translation_unit)) =
     [([''paper''], 2,
       [TInt, TLRef (TNamed [''std'', ''list''] [TPtr (TNamed [''RDKit'', ''ROMol''] [])])],
       TPtr (TPtr TFloat))]"
  by (simp add: entities_translation_unit paper_decl_def)

text \<open>
  C2: \<open>paper\<close> has no definition. Whatever macros are defined when the header is
  included, the declarations obtained from it contain no function body; in a translation
  unit that includes the header, \<open>paper\<close> is declared and no body is recorded for it.
\<close>

theorem paper_has_no_definition:
  "function_definitions (entities (snd (preprocess D paper_h))) = [] \<and>
   map fst (declared_functions (entities translation_unit)) = [[''paper'']] \<and>
   map_of (function_definitions (entities translation_unit)) [''paper''] = None"
proof -
  have "function_definitions (entities (snd (preprocess D paper_h))) = []"
    by (cases "''PAPER_H'' \<in> D") (simp_all add: preprocess_fresh preprocess_guarded)
  then show ?thesis
    by (simp add: entities_translation_unit)
qed

text \<open>
  C5: \<open>paper\<close> is declared \<open>extern "C"\<close>: it has C language linkage, so its linker symbol
  is the plain identifier \<open>paper\<close>.
\<close>

theorem paper_has_c_linkage:
  "map (\<lambda>(q, d). (q, flinkage d, link_symbol d))
       (declared_functions (entities translation_unit)) =
     [([''paper''], LinkC, Some ''paper'')]"
  by (simp add: entities_translation_unit paper_decl_def link_symbol_def)

text \<open>
  C6: \<open>RDKit::ROMol\<close> is forward-declared and never defined, so it is an incomplete type
  in a translation unit that sees only this header; the parameter types of \<open>paper\<close>
  mention it (behind a pointer) together with \<open>std::list\<close>; and the only header the file
  includes is the system header \<open>list\<close>.
\<close>

theorem romol_is_incomplete:
  "forward_declared_classes (entities translation_unit) = [[''RDKit'', ''ROMol'']] \<and>
   defined_classes (entities translation_unit) = [] \<and>
   is_complete (entities translation_unit) [''RDKit'', ''ROMol''] = False \<and>
   concat (map (\<lambda>(q, d). concat (map (\<lambda>p. classes_in (ptype p)) (fparams d)))
               (declared_functions (entities translation_unit))) =
     [[''std'', ''list''], [''RDKit'', ''ROMol'']] \<and>
   includes_of translation_unit = [''list'']"
  by (simp add: entities_translation_unit is_complete_def paper_decl_def)
     (simp add: translation_unit_eq)

text \<open>
  C7: the declaration of \<open>paper\<close> is all the header offers. The entities it declares are
  the forward-declared class \<open>RDKit::ROMol\<close> and the function \<open>paper\<close>; there is no other
  function, no class with members and no function body.
\<close>

theorem paper_is_sole_surface:
  "map fst (entities translation_unit) = [[''RDKit'', ''ROMol''], [''paper'']] \<and>
   map fst (declared_functions (entities translation_unit)) = [[''paper'']] \<and>
   defined_classes (entities translation_unit) = [] \<and>
   function_definitions (entities translation_unit) = []"
  by (simp add: entities_translation_unit)

text \<open>
  C8: the parameter \<open>molecules\<close> is a reference to a \<open>std::list\<close> that is not \<open>const\<close>, so
  the callee can write to the caller's list through it; \<open>gpuID\<close> is passed by value.
\<close>

theorem molecules_is_mutable_reference:
  "map (\<lambda>(q, d). map (\<lambda>p. (pname p, ptype p, writable_through (ptype p))) (fparams d))
       (declared_functions (entities translation_unit)) =
     [[(''gpuID'', TInt, False),
       (''molecules'',
        TLRef (TNamed [''std'', ''list''] [TPtr (TNamed [''RDKit'', ''ROMol''] [])]),
        True)]]"
  by (simp add: entities_translation_unit paper_decl_def)

text \<open>
  C4, as stated: the declaration has none of the listed means of reporting failure, an
  out-parameter among them. It does have a parameter through which the callee can write
  to the caller: \<open>molecules\<close>, a reference to a list that is not \<open>const\<close>.
\<close>

theorem paper_out_parameter_counterexample:
  "concat (map (\<lambda>(q, d). out_params d) (declared_functions (entities translation_unit))) \<noteq> []"
  by (simp add: entities_translation_unit paper_decl_def out_params_def)

text \<open>
  C4, amended: the declaration of \<open>paper\<close> defines no error condition. Its return type is
  \<open>float**\<close>, not an error code; the header holds no exception specification (neither
  \<open>noexcept\<close> nor \<open>throw\<close> occurs in it); and nothing documents a sentinel: the header
  has no block comment, and its only line comment is the \<open>PAPER_H\<close> after \<open>#endif\<close> on
  line 12. The one parameter the callee can write through is \<open>molecules\<close>, and the header
  gives it no meaning as an error channel.
\<close>

theorem paper_declares_no_error_channel:
  "map (\<lambda>(q, d). (q, fret d, out_params d)) (declared_functions (entities translation_unit)) =
     [([''paper''], TPtr (TPtr TFloat), [''molecules''])] \<and>
   contains ''noexcept'' paper_h_text = False \<and>
   contains ''throw'' paper_h_text = False \<and>
   contains ''/*'' paper_h_text = False \<and>
   map comment_of (split_lines paper_h_text) =
     [None, None, None, None, None, None, None, None, None, None, None, Some '' PAPER_H'']"
proof -
  have "map (\<lambda>(q, d). (q, fret d, out_params d)) (declared_functions (entities translation_unit)) =
     [([''paper''], TPtr (TPtr TFloat), [''molecules''])]"
    by (simp add: entities_translation_unit paper_decl_def out_params_def)
  moreover have "contains ''noexcept'' paper_h_text = False"
    by (simp add: paper_h_text_def)
  moreover have "contains ''throw'' paper_h_text = False"
    by (simp add: paper_h_text_def)
  moreover have "contains ''/*'' paper_h_text = False"
    by (simp add: paper_h_text_def)
  moreover have "map comment_of (split_lines paper_h_text) =
     [None, None, None, None, None, None, None, None, None, None, None, Some '' PAPER_H'']"
    by (simp add: paper_h_text_def)
  ultimately show ?thesis by simp
qed

end
